theory Spec2Isabelle
  imports Complex_Main "HOL-Library.AList" "HOL-Library.Sublist"
begin

section \<open>Python primitives used by the endpoints\<close>

text \<open>
  Strings are byte strings; \<open>str.lower()\<close> is modelled on ASCII letters (other
  characters are left as they are). Prices are Python floats; only their order
  is used by the code, so they are modelled as reals (no NaN).
\<close>

definition lower_char :: "char \<Rightarrow> char" where
  "lower_char c =
     (case map_of (zip ''ABCDEFGHIJKLMNOPQRSTUVWXYZ'' ''abcdefghijklmnopqrstuvwxyz'') c of
        None \<Rightarrow> c
      | Some l \<Rightarrow> l)"

definition lower :: "string \<Rightarrow> string" where
  "lower s = map lower_char s"

text \<open>\<open>sub in s\<close> on strings: \<open>sub\<close> occurs in \<open>s\<close> as a contiguous substring.\<close>

fun py_in :: "string \<Rightarrow> string \<Rightarrow> bool" where
  "py_in sub [] = (sub = [])"
| "py_in sub (c # cs) = (prefix sub (c # cs) \<or> py_in sub cs)"

text \<open>
  A Python \<open>dict\<close> keeps its keys in insertion order. It is an association list
  with distinct keys: \<open>d[k] = v\<close> is \<open>AList.update k v d\<close> (an existing key keeps
  its position, a new key goes to the end), \<open>del d[k]\<close> is \<open>AList.delete k d\<close>,
  \<open>k in d\<close> is \<open>map_of d k \<noteq> None\<close> and \<open>d.items()\<close> is the list itself.
\<close>

datatype error = HTTPException nat | KeyError | AttributeError | IntegrityError | DriverError

definition getitem :: "('k \<times> 'v) list \<Rightarrow> 'k \<Rightarrow> error + 'v" where
  "getitem d k = (case map_of d k of None \<Rightarrow> Inl KeyError | Some v \<Rightarrow> Inr v)"

section \<open>The in-memory application (\<open>fastapi-hello-world/_main.py\<close>)\<close>

text \<open>\<open>class Item(BaseModel)\<close>; \<open>model_dump()\<close> yields a dict with exactly these keys.\<close>

record Item =
  item_name :: string
  item_description :: "string option"
  item_price :: real

record ItemResponse =
  resp_id :: int
  resp_name :: string
  resp_description :: "string option"
  resp_price :: real

text \<open>\<open>class Task(BaseModel)\<close>.\<close>

record Task =
  task_title :: string
  task_description :: "string option"
  task_status :: string
  task_priority :: int

record TaskResponse =
  tresp_id :: int
  tresp_title :: string
  tresp_description :: "string option"
  tresp_status :: string
  tresp_priority :: int

record SearchResult =
  sr_id :: int
  sr_title :: string
  sr_item_type :: string

text \<open>The module-level globals \<open>items_db\<close>, \<open>next_id\<close>, \<open>tasks_db\<close>, \<open>next_task_id\<close>.\<close>

record store =
  items_db :: "(int \<times> Item) list"
  next_id :: int
  tasks_db :: "(int \<times> Task) list"
  next_task_id :: int

definition init_store :: store where
  "init_store = \<lparr>items_db = [], next_id = 1, tasks_db = [], next_task_id = 1\<rparr>"

text \<open>\<open>{"id": item_id, **item}\<close>\<close>

definition item_response :: "int \<Rightarrow> Item \<Rightarrow> ItemResponse" where
  "item_response item_id item =
     \<lparr>resp_id = item_id, resp_name = item_name item,
      resp_description = item_description item, resp_price = item_price item\<rparr>"

definition task_response :: "int \<Rightarrow> Task \<Rightarrow> TaskResponse" where
  "task_response task_id task =
     \<lparr>tresp_id = task_id, tresp_title = task_title task,
      tresp_description = task_description task, tresp_status = task_status task,
      tresp_priority = task_priority task\<rparr>"

text \<open>
  Every endpoint takes the globals and returns its outcome (\<open>Inl\<close> the exception
  raised, \<open>Inr\<close> the value returned) together with the globals after the call.
\<close>

definition list_items :: "store \<Rightarrow> (error + ItemResponse list) \<times> store" where
  "list_items s = (Inr (map (\<lambda>(item_id, item). item_response item_id item) (items_db s)), s)"

definition get_item :: "store \<Rightarrow> int \<Rightarrow> (error + ItemResponse) \<times> store" where
  "get_item s item_id =
     (if map_of (items_db s) item_id = None then (Inl (HTTPException 404), s)
      else (map_sum id (item_response item_id) (getitem (items_db s) item_id), s))"

definition create_item :: "store \<Rightarrow> Item \<Rightarrow> (error + ItemResponse) \<times> store" where
  "create_item s item =
     (let item_id = next_id s;
          s1 = s\<lparr>items_db := AList.update item_id item (items_db s)\<rparr>;
          s2 = s1\<lparr>next_id := next_id s1 + 1\<rparr>
      in (map_sum id (item_response item_id) (getitem (items_db s2) item_id), s2))"

definition update_item :: "store \<Rightarrow> int \<Rightarrow> Item \<Rightarrow> (error + ItemResponse) \<times> store" where
  "update_item s item_id item =
     (if map_of (items_db s) item_id = None then (Inl (HTTPException 404), s)
      else
        (let s1 = s\<lparr>items_db := AList.update item_id item (items_db s)\<rparr>
         in (map_sum id (item_response item_id) (getitem (items_db s1) item_id), s1)))"

text \<open>The result stands for \<open>{"message": "Item deleted successfully", "id": item_id}\<close>.\<close>

definition delete_item :: "store \<Rightarrow> int \<Rightarrow> (error + int) \<times> store" where
  "delete_item s item_id =
     (if map_of (items_db s) item_id = None then (Inl (HTTPException 404), s)
      else (Inr item_id, s\<lparr>items_db := AList.delete item_id (items_db s)\<rparr>))"

definition list_tasks :: "store \<Rightarrow> (error + TaskResponse list) \<times> store" where
  "list_tasks s = (Inr (map (\<lambda>(task_id, task). task_response task_id task) (tasks_db s)), s)"

definition get_task :: "store \<Rightarrow> int \<Rightarrow> (error + TaskResponse) \<times> store" where
  "get_task s task_id =
     (if map_of (tasks_db s) task_id = None then (Inl (HTTPException 404), s)
      else (map_sum id (task_response task_id) (getitem (tasks_db s) task_id), s))"

definition create_task :: "store \<Rightarrow> Task \<Rightarrow> (error + TaskResponse) \<times> store" where
  "create_task s task =
     (let task_id = next_task_id s;
          s1 = s\<lparr>tasks_db := AList.update task_id task (tasks_db s)\<rparr>;
          s2 = s1\<lparr>next_task_id := next_task_id s1 + 1\<rparr>
      in (map_sum id (task_response task_id) (getitem (tasks_db s2) task_id), s2))"

subsection \<open>\<open>search_items_and_tasks\<close>\<close>

text \<open>
  The condition \<open>query.lower() in name.lower() or query.lower() in desc.lower()\<close>,
  where \<open>desc = item_data.get("description", "")\<close>. The key \<open>description\<close> is always
  in the dict, so the default is never taken and \<open>desc\<close> is \<open>None\<close> for an item
  without a description; \<open>None.lower()\<close> raises \<open>AttributeError\<close>. The right operand
  of \<open>or\<close> is evaluated only when the left one is false.
\<close>

definition item_matches :: "string \<Rightarrow> string \<Rightarrow> string option \<Rightarrow> error + bool" where
  "item_matches query name desc =
     (if py_in (lower query) (lower name) then Inr True
      else (case desc of
              None \<Rightarrow> Inl AttributeError
            | Some d \<Rightarrow> Inr (py_in (lower query) (lower d))))"

text \<open>The first loop; \<open>results\<close> is the list built so far.\<close>

fun search_items :: "string \<Rightarrow> real option \<Rightarrow> real option \<Rightarrow> (int \<times> Item) list
    \<Rightarrow> SearchResult list \<Rightarrow> error + SearchResult list" where
  "search_items query min_price max_price [] results = Inr results"
| "search_items query min_price max_price ((item_id, item_data) # rest) results =
     (let name = item_name item_data; desc = item_description item_data in
      case item_matches query name desc of
        Inl e \<Rightarrow> Inl e
      | Inr False \<Rightarrow> search_items query min_price max_price rest results
      | Inr True \<Rightarrow>
          (let price = item_price item_data in
           if (case min_price of None \<Rightarrow> False | Some m \<Rightarrow> price < m)
           then search_items query min_price max_price rest results
           else if (case max_price of None \<Rightarrow> False | Some m \<Rightarrow> price > m)
           then search_items query min_price max_price rest results
           else search_items query min_price max_price rest
                  (results @ [\<lparr>sr_id = item_id, sr_title = name, sr_item_type = ''item''\<rparr>])))"

text \<open>
  The second loop. \<open>if status and ...\<close>: \<open>status\<close> is falsy when it is \<open>None\<close> or the
  empty string.
\<close>

fun search_tasks :: "string \<Rightarrow> string option \<Rightarrow> (int \<times> Task) list
    \<Rightarrow> SearchResult list \<Rightarrow> SearchResult list" where
  "search_tasks query status [] results = results"
| "search_tasks query status ((task_id, task_data) # rest) results =
     (let title = task_title task_data in
      if py_in (lower query) (lower title) then
        (if (case status of None \<Rightarrow> False | Some st \<Rightarrow> st \<noteq> [] \<and> task_status task_data \<noteq> st)
         then search_tasks query status rest results
         else search_tasks query status rest
                (results @ [\<lparr>sr_id = task_id, sr_title = title, sr_item_type = ''task''\<rparr>]))
      else search_tasks query status rest results)"

definition search_items_and_tasks :: "store \<Rightarrow> string \<Rightarrow> real option \<Rightarrow> real option
    \<Rightarrow> string option \<Rightarrow> (error + SearchResult list) \<times> store" where
  "search_items_and_tasks s query min_price max_price status =
     (case search_items query min_price max_price (items_db s) [] of
        Inl e \<Rightarrow> (Inl e, s)
      | Inr results \<Rightarrow> (Inr (search_tasks query status (tasks_db s) results), s))"

subsection \<open>A client issuing create and delete requests\<close>

datatype request = Create Item | Delete int

text \<open>The globals after a request; an exception leaves them as the endpoint left them.\<close>

fun handle :: "store \<Rightarrow> request \<Rightarrow> store" where
  "handle s (Create item) = snd (create_item s item)"
| "handle s (Delete item_id) = snd (delete_item s item_id)"

fun run_requests :: "store \<Rightarrow> request list \<Rightarrow> store" where
  "run_requests s [] = s"
| "run_requests s (r # rs) = run_requests (handle s r) rs"

text \<open>The ids in the responses of the create requests, in the order of the requests.\<close>

fun created_ids :: "store \<Rightarrow> request list \<Rightarrow> int list" where
  "created_ids s [] = []"
| "created_ids s (Create item # rs) =
     (case fst (create_item s item) of
        Inl e \<Rightarrow> created_ids (handle s (Create item)) rs
      | Inr r \<Rightarrow> resp_id r # created_ids (handle s (Create item)) rs)"
| "created_ids s (Delete item_id # rs) = created_ids (handle s (Delete item_id)) rs"

section \<open>The database-backed applications\<close>

text \<open>
  An ORM object is its attribute dictionary; \<open>setattr\<close> writes one attribute. A
  table is the list of its rows, keyed by primary key, in the order in which the
  database yields them for a \<open>SELECT\<close> without \<open>ORDER BY\<close>. The session is
  modelled by the table: \<open>session.get\<close> and \<open>select(...).where(id == ...)\<close> look a
  row up by primary key, \<open>commit\<close>/\<open>flush\<close> write the object back to its row and
  \<open>refresh\<close> reads it again. A write that violates a \<open>NOT NULL\<close> or a key
  constraint raises \<open>IntegrityError\<close> and leaves the table as it was.
\<close>

datatype val = VNone | VInt int | VStr string | VNum real | VDateTime nat

type_synonym row = "string \<rightharpoonup> val"

type_synonym table = "(int \<times> row) list"

definition setattr :: "row \<Rightarrow> string \<Rightarrow> val \<Rightarrow> row" where
  "setattr obj key v = obj(key \<mapsto> v)"

text \<open>\<open>for key, value in update_data.items(): setattr(obj, key, value)\<close>\<close>

fun assign_fields :: "row \<Rightarrow> (string \<times> val) list \<Rightarrow> row" where
  "assign_fields obj [] = obj"
| "assign_fields obj ((key, v) # rest) = assign_fields (setattr obj key v) rest"

definition str_val :: "string option \<Rightarrow> val" where
  "str_val v = (case v of None \<Rightarrow> VNone | Some s \<Rightarrow> VStr s)"

definition num_val :: "real option \<Rightarrow> val" where
  "num_val v = (case v of None \<Rightarrow> VNone | Some x \<Rightarrow> VNum x)"

text \<open>
  A field of an update model is unset (\<open>None\<close>), or set to null (\<open>Some None\<close>) or
  to a value. \<open>dump_field\<close> is the contribution of one field to
  \<open>model_dump(exclude_unset=True)\<close>.
\<close>

definition dump_field :: "string \<Rightarrow> ('a \<Rightarrow> val) \<Rightarrow> 'a option \<Rightarrow> (string \<times> val) list" where
  "dump_field key conv field = (case field of None \<Rightarrow> [] | Some v \<Rightarrow> [(key, conv v)])"

text \<open>
  \<open>writes_null cols update_data\<close>: the update assigns null to one of the columns
  \<open>cols\<close>.
\<close>

definition writes_null :: "string list \<Rightarrow> (string \<times> val) list \<Rightarrow> bool" where
  "writes_null cols update_data = list_ex (\<lambda>(key, v). key \<in> set cols \<and> v = VNone) update_data"

subsection \<open>\<open>update_task\<close> (\<open>fastapi-hello-world/main.py\<close>)\<close>

text \<open>\<open>class TaskUpdate(SQLModel)\<close>\<close>

record TaskUpdate =
  upd_title :: "string option option"
  upd_description :: "string option option"
  upd_status :: "string option option"

definition TaskUpdate_dump :: "TaskUpdate \<Rightarrow> (string \<times> val) list" where
  "TaskUpdate_dump u =
     dump_field ''title'' str_val (upd_title u) @
     dump_field ''description'' str_val (upd_description u) @
     dump_field ''status'' str_val (upd_status u)"

text \<open>
  \<open>update_task\<close>. In \<open>class TaskDB\<close> the columns \<open>title\<close> and \<open>status\<close> are declared
  \<open>str\<close>, so they are \<open>NOT NULL\<close>, while \<open>TaskUpdate\<close> accepts null for both: a
  commit that writes null to one of them raises \<open>IntegrityError\<close>, and the
  transaction is discarded when the session is closed.
\<close>

definition update_task :: "table \<Rightarrow> int \<Rightarrow> TaskUpdate \<Rightarrow> (error + row) \<times> table" where
  "update_task session task_id task_update =
     (case map_of session task_id of
        None \<Rightarrow> (Inl (HTTPException 404), session)
      | Some task \<Rightarrow>
          (let update_data = TaskUpdate_dump task_update;
               task1 = assign_fields task update_data
           in if writes_null [''title'', ''status''] update_data
              then (Inl IntegrityError, session)
              else (Inr task1, AList.update task_id task1 session)))"

subsection \<open>\<open>routers/items.py\<close>\<close>

text \<open>\<open>class ItemUpdate(BaseModel)\<close>\<close>

record ItemUpdate =
  upd_name :: "string option option"
  upd_item_description :: "string option option"
  upd_price :: "real option option"

definition ItemUpdate_dump :: "ItemUpdate \<Rightarrow> (string \<times> val) list" where
  "ItemUpdate_dump u =
     dump_field ''name'' str_val (upd_name u) @
     dump_field ''description'' str_val (upd_item_description u) @
     dump_field ''price'' num_val (upd_price u)"




text \<open>
  \<open>update_item\<close> of the router. In \<open>class Item(Base)\<close> the columns \<open>name\<close> and
  \<open>price\<close> are \<open>NOT NULL\<close>, while \<open>ItemUpdate\<close> accepts null for both: a flush that
  writes null to one of them raises \<open>IntegrityError\<close> and \<open>get_db\<close> rolls back. The
  column \<open>updated_at\<close> is declared with \<open>onupdate=datetime.utcnow\<close>: when the flush
  finds an attribute whose value has changed it writes the row and sets
  \<open>updated_at\<close> to the current time \<open>now\<close>; when nothing has changed, nothing is
  written.
\<close>

definition router_update_item :: "table \<Rightarrow> nat \<Rightarrow> int \<Rightarrow> ItemUpdate \<Rightarrow> (error + row) \<times> table" where
  "router_update_item db now item_id item_update =
     (case map_of db item_id of
        None \<Rightarrow> (Inl (HTTPException 404), db)
      | Some db_item \<Rightarrow>
          (let update_data = ItemUpdate_dump item_update;
               db_item1 = assign_fields db_item update_data;
               db_item2 = (if list_ex (\<lambda>(key, v). db_item key \<noteq> Some v) update_data
                           then setattr db_item1 ''updated_at'' (VDateTime now)
                           else db_item1)
           in if writes_null [''name'', ''price''] update_data
              then (Inl IntegrityError, db)
              else (Inr db_item2, AList.update item_id db_item2 db)))"

text \<open>
  \<open>list_items\<close> of the router: \<open>select(Item).offset(skip).limit(limit)\<close>. The
  parameters are declared \<open>Query(0, ge=0)\<close> and \<open>Query(10, ge=1, le=100)\<close>, and a
  request outside these bounds is answered with status 422 before the function
  runs. \<open>skip\<close> has no upper bound: the database driver rejects an offset that
  does not fit a signed 64-bit integer.
\<close>

definition router_list_items :: "table \<Rightarrow> int \<Rightarrow> int \<Rightarrow> (error + row list) \<times> table" where
  "router_list_items db skip limit =
     (if skip < 0 \<or> limit < 1 \<or> 100 < limit then (Inl (HTTPException 422), db)
      else if 2 ^ 63 \<le> skip then (Inl DriverError, db)
      else (Inr (take (nat limit) (drop (nat skip) (map snd db))), db))"

subsection \<open>A client inserting items through the router\<close>


section \<open>Specification-side notions\<close>







section \<open>Reachable stores and sample data\<close>

text \<open>Every key of \<open>items_db\<close> lies below the counter \<open>next_id\<close>.\<close>

definition keys_below :: "store \<Rightarrow> bool" where
  "keys_below s = (\<forall>k \<in> set (map fst (items_db s)). k < next_id s)"

definition item_A :: Item where
  "item_A = \<lparr>item_name = ''A'', item_description = None, item_price = 10\<rparr>"

text \<open>The update models built from the request body \<open>{}\<close>: no field is set.\<close>

definition empty_TaskUpdate :: TaskUpdate where
  "empty_TaskUpdate = \<lparr>upd_title = None, upd_description = None, upd_status = None\<rparr>"

definition empty_ItemUpdate :: ItemUpdate where
  "empty_ItemUpdate = \<lparr>upd_name = None, upd_item_description = None, upd_price = None\<rparr>"

text \<open>A task row, a table holding it, and an item row with its table.\<close>

definition task_row :: row where
  "task_row = [''id'' \<mapsto> VInt 1, ''title'' \<mapsto> VStr ''A'', ''description'' \<mapsto> VNone,
               ''status'' \<mapsto> VStr ''pending'', ''created_at'' \<mapsto> VDateTime 0]"

definition task_table :: table where
  "task_table = [(1, task_row)]"

definition item_row :: row where
  "item_row = [''id'' \<mapsto> VInt 1, ''name'' \<mapsto> VStr ''A'', ''description'' \<mapsto> VNone,
               ''price'' \<mapsto> VNum 10, ''created_at'' \<mapsto> VDateTime 0,
               ''updated_at'' \<mapsto> VDateTime 0]"

definition item_table :: table where
  "item_table = [(1, item_row)]"

text \<open>
  A store holding one item with a description, and the \<open>Item\<close> that the framework
  builds from the request body \<open>{"name": "A", "price": 20}\<close>: the body carries no
  description, so the field takes its default \<open>None\<close>.
\<close>

definition store_B :: store where
  "store_B =
     \<lparr>items_db = [(1, \<lparr>item_name = ''A'', item_description = Some ''d'', item_price = 10\<rparr>)],
      next_id = 2, tasks_db = [], next_task_id = 1\<rparr>"

definition item_A20 :: Item where
  "item_A20 = \<lparr>item_name = ''A'', item_description = None, item_price = 20\<rparr>"

text \<open>The update model built from the request body \<open>{"status": "done"}\<close>.\<close>

definition status_done :: TaskUpdate where
  "status_done = \<lparr>upd_title = None, upd_description = None, upd_status = Some (Some ''done'')\<rparr>"





text \<open>
  Stores reached through the API with items created without a description
  (\<open>POST /items {"name": ..., "price": ...}\<close>): the two items of the specification's
  search example; a single item; an item together with a task.
\<close>

definition store_two :: store where
  "store_two =
     \<lparr>items_db = [(1, \<lparr>item_name = ''Item 1'', item_description = None, item_price = 5\<rparr>),
                  (2, \<lparr>item_name = ''Item 2'', item_description = None, item_price = 20\<rparr>)],
      next_id = 3, tasks_db = [], next_task_id = 1\<rparr>"

definition store_one :: store where
  "store_one =
     \<lparr>items_db = [(1, \<lparr>item_name = ''Apple'', item_description = None, item_price = 1\<rparr>)],
      next_id = 2, tasks_db = [], next_task_id = 1\<rparr>"

definition store_mixed :: store where
  "store_mixed =
     \<lparr>items_db = [(1, \<lparr>item_name = ''Apple'', item_description = None, item_price = 1\<rparr>)],
      next_id = 2,
      tasks_db = [(1, \<lparr>task_title = ''Buy item'', task_description = None,
                         task_status = ''pending'', task_priority = 3\<rparr>)],
      next_task_id = 2\<rparr>"


section \<open>Basic facts\<close>





section \<open>Reading after creating\<close>

text \<open>
  C6. \<open>create_item\<close> always returns a record (it never raises), the record carries
  the id \<open>next_id\<close>, and \<open>get_item\<close> with that id on the store left by the creation
  returns the very same record.
\<close>

theorem create_item_then_get_item:
  "\<exists>r. fst (create_item s item) = Inr r \<and> resp_id r = next_id s \<and>
       get_item (snd (create_item s item)) (resp_id r) = (Inr r, snd (create_item s item))"
  by (simp add: create_item_def get_item_def getitem_def Let_def update_conv' item_response_def)

section \<open>Read-only endpoints\<close>

text \<open>
  C10. \<open>get_item\<close>, \<open>list_items\<close> and \<open>search_items_and_tasks\<close> (and their task
  counterparts \<open>get_task\<close>, \<open>list_tasks\<close>) leave the globals as they found them,
  whether they return or raise: the dictionaries and the id counters after the
  call are those before it.
\<close>

theorem read_endpoints_keep_store:
  "snd (get_item s item_id) = s \<and> snd (list_items s) = s \<and>
   snd (search_items_and_tasks s query min_price max_price status) = s \<and>
   snd (get_task s task_id) = s \<and> snd (list_tasks s) = s"
  by (simp add: get_item_def list_items_def search_items_and_tasks_def get_task_def list_tasks_def
      split: sum.splits)

section \<open>Identifiers\<close>

lemma create_item_result: "fst (create_item s item) = Inr (item_response (next_id s) item)"
  by (simp add: create_item_def getitem_def Let_def update_conv')

lemma create_item_store:
  "snd (create_item s item) =
     s\<lparr>items_db := AList.update (next_id s) item (items_db s), next_id := next_id s + 1\<rparr>"
  by (simp add: create_item_def Let_def)

lemma delete_item_next_id: "next_id (snd (delete_item s item_id)) = next_id s"
  by (simp add: delete_item_def)

lemma handle_next_id_mono: "next_id s \<le> next_id (handle s r)"
  by (cases r) (simp_all add: create_item_store delete_item_next_id)

lemma handle_keys_below: "keys_below s \<Longrightarrow> keys_below (handle s r)"
proof (cases r)
  case (Create item)
  assume "keys_below s"
  then show ?thesis
    unfolding Create
    by (auto simp: keys_below_def create_item_store update_keys simp del: set_map)
next
  case (Delete item_id)
  assume "keys_below s"
  then show ?thesis
    unfolding Delete
    by (auto simp: keys_below_def delete_item_def delete_keys simp del: set_map)
qed

lemma run_requests_keys_below: "keys_below s \<Longrightarrow> keys_below (run_requests s rs)"
  by (induction rs arbitrary: s) (simp_all add: handle_keys_below)

lemma run_requests_append: "run_requests s (rs @ rs') = run_requests (run_requests s rs) rs'"
  by (induction rs arbitrary: s) simp_all

lemma created_ids_lower: "x \<in> set (created_ids s rs) \<Longrightarrow> next_id s \<le> x"
proof (induction rs arbitrary: s)
  case Nil
  then show ?case by simp
next
  case (Cons r rs)
  show ?case
  proof (cases r)
    case (Create item)
    with Cons.prems have "x = next_id s \<or> x \<in> set (created_ids (handle s r) rs)"
      by (simp add: create_item_result item_response_def)
    then show ?thesis
      using Cons.IH [of "handle s r"] handle_next_id_mono [of s r] by auto
  next
    case (Delete item_id)
    with Cons.prems have "x \<in> set (created_ids (handle s r) rs)"
      by simp
    then show ?thesis
      using Cons.IH [of "handle s r"] handle_next_id_mono [of s r] by auto
  qed
qed

lemma created_ids_sorted: "sorted_wrt (<) (created_ids s rs)"
proof (induction rs arbitrary: s)
  case Nil
  show ?case by simp
next
  case (Cons r rs)
  show ?case
  proof (cases r)
    case (Create item)
    have "next_id s < x" if "x \<in> set (created_ids (handle s (Create item)) rs)" for x
      using created_ids_lower [OF that] by (simp add: create_item_store)
    then show ?thesis
      unfolding Create using Cons.IH [of "handle s (Create item)"]
      by (simp add: create_item_result item_response_def)
  next
    case (Delete item_id)
    then show ?thesis using Cons.IH by simp
  qed
qed

lemma init_keys_below: "keys_below init_store"
  by (simp add: keys_below_def init_store_def)

text \<open>
  C3. For every sequence of create and delete requests issued from the empty
  store, the ids returned by the creations are strictly increasing, hence pairwise
  distinct, and once a delete request has removed the record with some id, no later
  creation returns that id.
\<close>

theorem created_ids_increasing_never_reused:
  "sorted_wrt (<) (created_ids init_store rs) \<and> distinct (created_ids init_store rs) \<and>
   (\<forall>pre item_id post.
      rs = pre @ Delete item_id # post \<and>
      map_of (items_db (run_requests init_store pre)) item_id \<noteq> None \<longrightarrow>
      item_id \<notin> set (created_ids (run_requests init_store (pre @ [Delete item_id])) post))"
proof (intro conjI allI impI)
  show "sorted_wrt (<) (created_ids init_store rs)"
    by (rule created_ids_sorted)
  then show "distinct (created_ids init_store rs)"
    by (simp add: strict_sorted_iff)
next
  fix pre item_id post
  assume a: "rs = pre @ Delete item_id # post \<and>
      map_of (items_db (run_requests init_store pre)) item_id \<noteq> None"
  let ?s = "run_requests init_store pre"
  have "keys_below ?s"
    by (rule run_requests_keys_below [OF init_keys_below])
  moreover from a have "item_id \<in> set (map fst (items_db ?s))"
    by (simp add: map_of_eq_None_iff)
  ultimately have lt: "item_id < next_id ?s"
    unfolding keys_below_def by blast
  have "next_id (run_requests init_store (pre @ [Delete item_id])) = next_id ?s"
    by (simp add: run_requests_append delete_item_next_id)
  with lt show "item_id \<notin> set (created_ids (run_requests init_store (pre @ [Delete item_id])) post)"
    using created_ids_lower [of item_id "run_requests init_store (pre @ [Delete item_id])" post]
    by auto
qed


theorem created_ids_increasing_never_reused_witness:
  "[Create item_A, Delete 1, Create item_A] = [Create item_A] @ Delete 1 # [Create item_A] \<and>
   map_of (items_db (run_requests init_store [Create item_A])) 1 \<noteq> None \<and>
   1 \<notin> set (created_ids (run_requests init_store ([Create item_A] @ [Delete 1])) [Create item_A]) \<and>
   sorted_wrt (<) (created_ids init_store [Create item_A, Delete 1, Create item_A]) \<and>
   distinct (created_ids init_store [Create item_A, Delete 1, Create item_A]) \<and>
   created_ids init_store [Create item_A, Delete 1, Create item_A] = [1, 2]"
proof -
  have h: "[Create item_A, Delete 1, Create item_A] = [Create item_A] @ Delete 1 # [Create item_A] \<and>
      map_of (items_db (run_requests init_store [Create item_A])) 1 \<noteq> None"
    by (simp add: init_store_def create_item_def Let_def)
  have ids: "created_ids init_store [Create item_A, Delete 1, Create item_A] = [1, 2]"
    by (simp add: init_store_def create_item_def delete_item_def getitem_def item_response_def
        Let_def)
  note t = created_ids_increasing_never_reused [of "[Create item_A, Delete 1, Create item_A]"]
  from t h have "1 \<notin> set (created_ids (run_requests init_store ([Create item_A] @ [Delete 1]))
      [Create item_A])"
    by blast
  with t h ids show ?thesis
    by blast
qed

section \<open>Partial updates\<close>


lemma TaskUpdate_dump_empty: "TaskUpdate_dump empty_TaskUpdate = []"
  by (simp add: TaskUpdate_dump_def empty_TaskUpdate_def dump_field_def)

lemma ItemUpdate_dump_empty: "ItemUpdate_dump empty_ItemUpdate = []"
  by (simp add: ItemUpdate_dump_def empty_ItemUpdate_def dump_field_def)

text \<open>
  C7. Updating a stored row with the empty payload changes nothing: \<open>update_task\<close>
  and the router's \<open>update_item\<close> return the row as it was, and the table is the
  same afterwards (no attribute is assigned and nothing is written).
\<close>

theorem update_with_empty_payload:
  "(map_of session task_id = Some task \<longrightarrow>
      update_task session task_id empty_TaskUpdate = (Inr task, session)) \<and>
   (map_of db item_id = Some db_item \<longrightarrow>
      router_update_item db now item_id empty_ItemUpdate = (Inr db_item, db))"
  by (simp add: update_task_def router_update_item_def TaskUpdate_dump_empty
      ItemUpdate_dump_empty writes_null_def update_triv)

theorem update_with_empty_payload_witness:
  "map_of task_table 1 = Some task_row \<and>
   update_task task_table 1 empty_TaskUpdate = (Inr task_row, task_table) \<and>
   map_of item_table 1 = Some item_row \<and>
   router_update_item item_table 7 1 empty_ItemUpdate = (Inr item_row, item_table)"
proof -
  have h1: "map_of task_table 1 = Some task_row"
    by (simp add: task_table_def)
  have h2: "map_of item_table 1 = Some item_row"
    by (simp add: item_table_def)
  note t = update_with_empty_payload [of task_table 1 task_row item_table 1 item_row 7]
  from t h1 h2 show ?thesis
    by blast
qed


lemma assign_fields_lookup:
  "assign_fields obj kvs key = (case map_of (rev kvs) key of None \<Rightarrow> obj key | Some v \<Rightarrow> Some v)"
  by (induction kvs arbitrary: obj) (auto simp: setattr_def split: option.splits)

lemma dump_field_lookup:
  "map_of (dump_field k conv f) key = (if key = k then map_option conv f else None)"
  by (cases f) (simp_all add: dump_field_def)

lemma TaskUpdate_dump_lookup:
  "map_of (rev (TaskUpdate_dump u)) key =
     (if key = ''title'' then map_option str_val (upd_title u)
      else if key = ''description'' then map_option str_val (upd_description u)
      else if key = ''status'' then map_option str_val (upd_status u)
      else None)"
  by (simp add: TaskUpdate_dump_def dump_field_def map_add_def split: option.splits)


lemma TaskUpdate_writes_null:
  "writes_null [''title'', ''status''] (TaskUpdate_dump u) \<longleftrightarrow>
     upd_title u = Some None \<or> upd_status u = Some None"
  by (auto simp: writes_null_def TaskUpdate_dump_def dump_field_def str_val_def
      split: option.splits)

lemma update_task_found:
  "map_of session task_id = Some task \<Longrightarrow> upd_title u \<noteq> Some None \<Longrightarrow>
   upd_status u \<noteq> Some None \<Longrightarrow>
     update_task session task_id u =
       (Inr (assign_fields task (TaskUpdate_dump u)),
        AList.update task_id (assign_fields task (TaskUpdate_dump u)) session)"
  by (simp add: update_task_def Let_def TaskUpdate_writes_null)

lemma update_task_null_raises:
  "map_of session task_id = Some task \<Longrightarrow> upd_title u = Some None \<or> upd_status u = Some None \<Longrightarrow>
     update_task session task_id u = (Inl IntegrityError, session)"
  by (simp add: update_task_def Let_def TaskUpdate_writes_null)

lemma update_item_found:
  "map_of (items_db s) item_id \<noteq> None \<Longrightarrow>
     update_item s item_id item =
       (Inr (item_response item_id item),
        s\<lparr>items_db := AList.update item_id item (items_db s)\<rparr>)"
  by (simp add: update_item_def getitem_def update_conv' Let_def)

text \<open>
  C1, as amended. \<open>update_task\<close> on a stored task, with a payload that does not set
  \<open>title\<close> or \<open>status\<close> to null, assigns exactly the attributes that are set in
  the payload, leaves every other attribute and every other row as they were,
  stores the row and returns it. \<open>update_item\<close> of the in-memory application takes
  a complete \<open>Item\<close> and replaces the stored record by it: the stored record
  afterwards is the payload, other records and the counter are untouched.
\<close>

theorem update_overwrites_supplied_keys:
  "(map_of session task_id = Some task \<and> upd_title u \<noteq> Some None \<and>
    upd_status u \<noteq> Some None \<longrightarrow>
      (\<exists>task1 session1.
         update_task session task_id u = (Inr task1, session1) \<and>
         map_of session1 task_id = Some task1 \<and>
         (\<forall>k. k \<noteq> task_id \<longrightarrow> map_of session1 k = map_of session k) \<and>
         task1 ''title'' =
           (case upd_title u of None \<Rightarrow> task ''title'' | Some v \<Rightarrow> Some (str_val v)) \<and>
         task1 ''description'' =
           (case upd_description u of None \<Rightarrow> task ''description'' | Some v \<Rightarrow> Some (str_val v)) \<and>
         task1 ''status'' =
           (case upd_status u of None \<Rightarrow> task ''status'' | Some v \<Rightarrow> Some (str_val v)) \<and>
         (\<forall>key. key \<notin> {''title'', ''description'', ''status''} \<longrightarrow> task1 key = task key))) \<and>
   (map_of (items_db s) item_id \<noteq> None \<longrightarrow>
      (\<exists>s1. update_item s item_id item = (Inr (item_response item_id item), s1) \<and>
         map_of (items_db s1) item_id = Some item \<and>
         (\<forall>k. k \<noteq> item_id \<longrightarrow> map_of (items_db s1) k = map_of (items_db s) k) \<and>
         next_id s1 = next_id s))"
proof (intro conjI impI)
  assume hyp: "map_of session task_id = Some task \<and> upd_title u \<noteq> Some None \<and>
    upd_status u \<noteq> Some None"
  let ?t = "assign_fields task (TaskUpdate_dump u)"
  let ?s = "AList.update task_id ?t session"
  have fields: "?t key =
      (case map_of (rev (TaskUpdate_dump u)) key of None \<Rightarrow> task key | Some v \<Rightarrow> Some v)" for key
    by (rule assign_fields_lookup)
  have 1: "update_task session task_id u = (Inr ?t, ?s)"
    using hyp by (intro update_task_found) simp_all
  have 2: "map_of ?s task_id = Some ?t"
    by (simp add: update_conv')
  have 3: "\<forall>k. k \<noteq> task_id \<longrightarrow> map_of ?s k = map_of session k"
    by (simp add: update_conv')
  have 4: "?t ''title'' = (case upd_title u of None \<Rightarrow> task ''title'' | Some v \<Rightarrow> Some (str_val v))"
    by (simp add: fields TaskUpdate_dump_lookup split: option.splits)
  have 5: "?t ''description'' =
      (case upd_description u of None \<Rightarrow> task ''description'' | Some v \<Rightarrow> Some (str_val v))"
    by (simp add: fields TaskUpdate_dump_lookup split: option.splits)
  have 6: "?t ''status'' =
      (case upd_status u of None \<Rightarrow> task ''status'' | Some v \<Rightarrow> Some (str_val v))"
    by (simp add: fields TaskUpdate_dump_lookup split: option.splits)
  have 7: "\<forall>key. key \<notin> {''title'', ''description'', ''status''} \<longrightarrow> ?t key = task key"
    by (simp add: fields TaskUpdate_dump_lookup)
  show "\<exists>task1 session1.
         update_task session task_id u = (Inr task1, session1) \<and>
         map_of session1 task_id = Some task1 \<and>
         (\<forall>k. k \<noteq> task_id \<longrightarrow> map_of session1 k = map_of session k) \<and>
         task1 ''title'' =
           (case upd_title u of None \<Rightarrow> task ''title'' | Some v \<Rightarrow> Some (str_val v)) \<and>
         task1 ''description'' =
           (case upd_description u of None \<Rightarrow> task ''description'' | Some v \<Rightarrow> Some (str_val v)) \<and>
         task1 ''status'' =
           (case upd_status u of None \<Rightarrow> task ''status'' | Some v \<Rightarrow> Some (str_val v)) \<and>
         (\<forall>key. key \<notin> {''title'', ''description'', ''status''} \<longrightarrow> task1 key = task key)"
    by (rule exI [of _ ?t], rule exI [of _ ?s]) (intro conjI 1 2 3 4 5 6 7)
next
  assume found: "map_of (items_db s) item_id \<noteq> None"
  let ?s = "s\<lparr>items_db := AList.update item_id item (items_db s)\<rparr>"
  have 1: "update_item s item_id item = (Inr (item_response item_id item), ?s)"
    by (rule update_item_found [OF found])
  have 2: "map_of (items_db ?s) item_id = Some item"
    by (simp add: update_conv')
  have 3: "\<forall>k. k \<noteq> item_id \<longrightarrow> map_of (items_db ?s) k = map_of (items_db s) k"
    by (simp add: update_conv')
  have 4: "next_id ?s = next_id s"
    by simp
  show "\<exists>s1. update_item s item_id item = (Inr (item_response item_id item), s1) \<and>
         map_of (items_db s1) item_id = Some item \<and>
         (\<forall>k. k \<noteq> item_id \<longrightarrow> map_of (items_db s1) k = map_of (items_db s) k) \<and>
         next_id s1 = next_id s"
    by (rule exI [of _ ?s]) (intro conjI 1 2 3 4)
qed

theorem update_overwrites_supplied_keys_witness:
  "(map_of task_table 1 = Some task_row \<and> upd_title status_done \<noteq> Some None \<and>
    upd_status status_done \<noteq> Some None) \<and>
   map_of (items_db store_B) 1 \<noteq> None \<and>
   (\<exists>task1. fst (update_task task_table 1 status_done) = Inr task1 \<and>
      task1 ''title'' = Some (VStr ''A'') \<and> task1 ''status'' = Some (VStr ''done'') \<and>
      task1 ''created_at'' = Some (VDateTime 0)) \<and>
   fst (update_item store_B 1 item_A20) = Inr (item_response 1 item_A20)"
proof -
  have h1: "map_of task_table 1 = Some task_row \<and> upd_title status_done \<noteq> Some None \<and>
    upd_status status_done \<noteq> Some None"
    by (simp add: task_table_def status_done_def)
  have h2: "map_of (items_db store_B) 1 \<noteq> None"
    by (simp add: store_B_def)
  note t = update_overwrites_supplied_keys [of task_table 1 task_row status_done store_B 1 item_A20]
  note t1 = t [THEN conjunct1, THEN mp, OF h1]
  note t2 = t [THEN conjunct2, THEN mp, OF h2]
  have "\<exists>task1. fst (update_task task_table 1 status_done) = Inr task1 \<and>
      task1 ''title'' = Some (VStr ''A'') \<and> task1 ''status'' = Some (VStr ''done'') \<and>
      task1 ''created_at'' = Some (VDateTime 0)"
    using t1 by (auto simp: status_done_def task_row_def str_val_def)
  moreover have "fst (update_item store_B 1 item_A20) = Inr (item_response 1 item_A20)"
    using t2 by auto
  ultimately show ?thesis
    using h1 h2 by simp
qed

text \<open>
  C1, as stated, fails for \<open>update_item\<close> of the in-memory application: the stored
  record \<open>{name: "A", description: "d", price: 10}\<close> updated with the payload
  \<open>{name: "A", price: 20}\<close> loses its description, which the payload does not carry.
\<close>

theorem update_item_resets_description:
  "fst (get_item store_B 1) =
     Inr \<lparr>resp_id = 1, resp_name = ''A'', resp_description = Some ''d'', resp_price = 10\<rparr> \<and>
   fst (update_item store_B 1 item_A20) =
     Inr \<lparr>resp_id = 1, resp_name = ''A'', resp_description = None, resp_price = 20\<rparr> \<and>
   fst (get_item (snd (update_item store_B 1 item_A20)) 1) \<noteq>
     Inr \<lparr>resp_id = 1, resp_name = ''A'', resp_description = Some ''d'', resp_price = 20\<rparr>"
  by (simp add: store_B_def item_A20_def update_item_def get_item_def getitem_def
      item_response_def Let_def)

section \<open>Listing\<close>















lemma router_list_items_overflow:
  "1 \<le> limit \<Longrightarrow> limit \<le> 100 \<Longrightarrow> 2 ^ 63 \<le> skip \<Longrightarrow>
     router_list_items db skip limit = (Inl DriverError, db)"
  by (simp add: router_list_items_def)

section \<open>Searching\<close>









text \<open>
  C2. On the store of the specification's example (two items created without a
  description) the search for \<open>item\<close> with \<open>min_price = 10\<close> returns only the second
  item, as the claim says. On the same store the search for \<open>2\<close> should return the
  second item as well; instead it raises \<open>AttributeError\<close> at the first item, whose
  name does not contain the query and whose description is \<open>None\<close>.
\<close>

theorem search_raises_on_missing_description:
  "search_items_and_tasks store_two ''item'' (Some 10) None None =
     (Inr [\<lparr>sr_id = 2, sr_title = ''Item 2'', sr_item_type = ''item''\<rparr>], store_two) \<and>
   search_items_and_tasks store_two ''2'' None None None = (Inl AttributeError, store_two)"
  by (simp add: search_items_and_tasks_def store_two_def item_matches_def lower_def
      lower_char_def)

text \<open>
  C8. The search should return the matching items followed by the matching tasks.
  With an item without a description whose name does not contain the query, it
  raises \<open>AttributeError\<close> in the item loop and returns nothing, although the task
  loop on its own finds the matching task.
\<close>

theorem search_raises_before_tasks:
  "search_items_and_tasks store_mixed ''item'' None None None = (Inl AttributeError, store_mixed) \<and>
   search_tasks ''item'' None (tasks_db store_mixed) [] =
     [\<lparr>sr_id = 1, sr_title = ''Buy item'', sr_item_type = ''task''\<rparr>]"
  by (simp add: search_items_and_tasks_def store_mixed_def item_matches_def lower_def
      lower_char_def)

section \<open>The status filter of the search\<close>



section \<open>Failures\<close>

text \<open>
  \<open>get_item\<close>, \<open>update_item\<close> and \<open>delete_item\<close> raise the 404 exception exactly when
  the id is not a key of \<open>items_db\<close>, they leave the store alone when they raise it,
  and a record that has been deleted is not found afterwards.
\<close>

lemma get_item_not_found_iff:
  "fst (get_item s item_id) = Inl (HTTPException 404) \<longleftrightarrow> map_of (items_db s) item_id = None"
  by (auto simp: get_item_def getitem_def)

lemma update_item_not_found_iff:
  "fst (update_item s item_id item) = Inl (HTTPException 404) \<longleftrightarrow> map_of (items_db s) item_id = None"
  by (auto simp: update_item_def getitem_def Let_def update_conv')

lemma delete_item_not_found_iff:
  "fst (delete_item s item_id) = Inl (HTTPException 404) \<longleftrightarrow> map_of (items_db s) item_id = None"
  by (auto simp: delete_item_def)

lemma not_found_keeps_store:
  "map_of (items_db s) item_id = None \<Longrightarrow>
     snd (get_item s item_id) = s \<and> snd (update_item s item_id item) = s \<and>
     snd (delete_item s item_id) = s"
  by (simp add: get_item_def update_item_def delete_item_def)

lemma delete_item_then_get_item:
  "fst (delete_item s item_id) = Inr r \<Longrightarrow>
     fst (get_item (snd (delete_item s item_id)) item_id) = Inl (HTTPException 404)"
  by (auto simp: delete_item_def get_item_def delete_conv' split: if_splits)

text \<open>
  C5. \<open>NotFound\<close> should be the only failure of any operation, but the search over a
  store holding one item without a description fails with \<open>AttributeError\<close> when the
  query does not occur in the item's name.
\<close>

theorem search_fails_without_not_found:
  "fst (search_items_and_tasks store_one ''pear'' None None None) = Inl AttributeError \<and>
   AttributeError \<noteq> HTTPException 404"
  by (simp add: search_items_and_tasks_def store_one_def item_matches_def lower_def
      lower_char_def)

end
